theory Spec2Isabelle
  imports Complex_Main "HOL-Library.Word"
begin

section \<open>Error taxonomy (errors.go)\<close>

text \<open>
  \<^verbatim>\<open>type ErrorType string\<close>: the kind of an error is a string, of which the source names
  six constants.
\<close>

type_synonym ErrorType = string

definition ErrorTypeNetwork :: ErrorType where "ErrorTypeNetwork = ''network''"
definition ErrorTypeAPI :: ErrorType where "ErrorTypeAPI = ''api''"
definition ErrorTypeAuth :: ErrorType where "ErrorTypeAuth = ''auth''"
definition ErrorTypeConfig :: ErrorType where "ErrorTypeConfig = ''config''"
definition ErrorTypeParse :: ErrorType where "ErrorTypeParse = ''parse''"
definition ErrorTypeStream :: ErrorType where "ErrorTypeStream = ''stream''"

text \<open>
  The values of Go's \<^verbatim>\<open>error\<close> interface that the classification predicates tell
  apart: a \<^verbatim>\<open>*ClientError\<close> (with its fields \<^verbatim>\<open>Type\<close>, \<^verbatim>\<open>Code\<close>, \<^verbatim>\<open>Message\<close> and the
  wrapped \<^verbatim>\<open>Cause\<close>, itself an error or nil), an error implementing \<^verbatim>\<open>net.Error\<close> (what
  its methods \<^verbatim>\<open>Timeout()\<close> and \<^verbatim>\<open>Temporary()\<close> return), and any other error.
\<close>

datatype go_error =
    ClientError (Type: ErrorType) (Code: string) (Message: string) (Cause: "go_error option")
  | NetError bool bool
  | OtherError string

definition NewInvalidParameterError :: "string \<Rightarrow> string \<Rightarrow> go_error" where
  "NewInvalidParameterError parameter v =
     ClientError ErrorTypeConfig ''invalid_parameter''
       (''invalid parameter '' @ parameter @ '': '' @ v) None"

definition NewConfigError :: "string \<Rightarrow> go_error" where
  "NewConfigError message = ClientError ErrorTypeConfig ''config_error'' message None"

fun IsRetryableError :: "go_error \<Rightarrow> bool" where
  "IsRetryableError (ClientError t c m cause) =
     (if t = ErrorTypeNetwork then True
      else if t = ErrorTypeAPI then c = ''rate_limit'' \<or> c = ''server_error''
      else False)"
| "IsRetryableError (NetError timeout temporary) = (timeout \<or> temporary)"
| "IsRetryableError (OtherError s) = False"

fun IsAuthenticationError :: "go_error \<Rightarrow> bool" where
  "IsAuthenticationError (ClientError t c m cause) = (t = ErrorTypeAuth)"
| "IsAuthenticationError (NetError timeout temporary) = False"
| "IsAuthenticationError (OtherError s) = False"

section \<open>Messages, conversations, chunks and clients\<close>

record Message =
  Role :: string
  Content :: string

record Conversation =
  Messages :: "Message list"

definition NewConversation :: Conversation where
  "NewConversation = \<lparr>Messages = []\<rparr>"

definition AddMessage :: "string \<Rightarrow> string \<Rightarrow> Conversation \<Rightarrow> Conversation" where
  "AddMessage role content c =
     c\<lparr>Messages := Messages c @ [\<lparr>Role = role, Content = content\<rparr>]\<rparr>"

definition AddSystemMessage :: "string \<Rightarrow> Conversation \<Rightarrow> Conversation" where
  "AddSystemMessage content c = AddMessage ''system'' content c"

definition AddUserMessage :: "string \<Rightarrow> Conversation \<Rightarrow> Conversation" where
  "AddUserMessage content c = AddMessage ''user'' content c"

definition AddAssistantMessage :: "string \<Rightarrow> Conversation \<Rightarrow> Conversation" where
  "AddAssistantMessage content c = AddMessage ''assistant'' content c"

text \<open>
  \<^verbatim>\<open>ResponseMetadata\<close> without its untyped \<^verbatim>\<open>SafetyRatings\<close> field, which no function
  modelled here reads.
\<close>

record ResponseMetadata =
  ModelUsed :: string
  PromptTokens :: int
  CompletionTokens :: int
  TotalTokens :: int
  FinishReason :: string
  RequestID :: string
  LatencyMs :: int

record AiResponse =
  Content :: string
  Metadata :: ResponseMetadata

record StreamChunk =
  Content :: string
  Finished :: bool
  Metadata :: "ResponseMetadata option"

text \<open>
  The \<^verbatim>\<open>AIClient\<close> interface. A method is a function of its arguments: the pair it
  returns stands for whatever the provider answered to that call, both values of Go's
  \<^verbatim>\<open>(result, error)\<close> kept, the error \<open>None\<close> for nil. The adapters of the repository
  only read the conversation they are handed (they copy \<^verbatim>\<open>conversation.Messages\<close> into
  the request), so a call returns no new conversation. A chunk channel is the finite
  list of the chunks sent on it before it is closed. \<open>'c\<close> is the type of the
  \<^verbatim>\<open>context.Context\<close> passed through.
\<close>

record 'c AIClient =
  SendPrompt :: "'c \<Rightarrow> string \<Rightarrow> string \<times> go_error option"
  SendConversation :: "'c \<Rightarrow> Conversation \<Rightarrow> string \<times> go_error option"
  SendConversationWithMetadata :: "'c \<Rightarrow> Conversation \<Rightarrow> AiResponse option \<times> go_error option"
  StreamConversation :: "'c \<Rightarrow> Conversation \<Rightarrow> StreamChunk list \<times> go_error option"
  SupportsStreaming :: bool
  SupportsConversations :: bool
  Name :: string
  Model :: string

section \<open>Chat sessions (session.go)\<close>

record 'c ChatSession =
  client :: "'c AIClient"
  conversation :: Conversation

definition NewChatSession :: "'c AIClient \<Rightarrow> 'c ChatSession" where
  "NewChatSession cl = \<lparr>client = cl, conversation = NewConversation\<rparr>"

text \<open>
  The rollback of \<^verbatim>\<open>Send\<close>, \<^verbatim>\<open>SendWithMetadata\<close> and \<^verbatim>\<open>Stream\<close>:
  \<^verbatim>\<open>if len(msgs) > 0 { msgs = msgs[:len(msgs)-1] }\<close>.
\<close>

definition remove_last_message :: "Conversation \<Rightarrow> Conversation" where
  "remove_last_message c =
     (if length (Messages c) > 0
      then c\<lparr>Messages := take (length (Messages c) - 1) (Messages c)\<rparr>
      else c)"

text \<open>Each operation returns what the Go method returns, and the session after it.\<close>

definition Send :: "'c \<Rightarrow> string \<Rightarrow> 'c ChatSession \<Rightarrow> (string \<times> go_error option) \<times> 'c ChatSession" where
  "Send ctx message s =
     (let s1 = s\<lparr>conversation := AddUserMessage message (conversation s)\<rparr>;
          (response, err) = SendConversation (client s1) ctx (conversation s1)
      in case err of
           Some e \<Rightarrow>
             (([], Some e), s1\<lparr>conversation := remove_last_message (conversation s1)\<rparr>)
         | None \<Rightarrow>
             ((response, None),
              s1\<lparr>conversation := AddAssistantMessage response (conversation s1)\<rparr>))"

text \<open>
  \<^verbatim>\<open>SendWithMetadata\<close> reads \<^verbatim>\<open>response.Content\<close> of the pointer the client returned: a
  client that returns a nil response with a nil error makes it panic, which is the
  result \<open>None\<close>.
\<close>

definition SendWithMetadata ::
  "'c \<Rightarrow> string \<Rightarrow> 'c ChatSession \<Rightarrow> ((AiResponse option \<times> go_error option) \<times> 'c ChatSession) option" where
  "SendWithMetadata ctx message s =
     (let s1 = s\<lparr>conversation := AddUserMessage message (conversation s)\<rparr>;
          (response, err) = SendConversationWithMetadata (client s1) ctx (conversation s1)
      in case err of
           Some e \<Rightarrow>
             Some ((None, Some e), s1\<lparr>conversation := remove_last_message (conversation s1)\<rparr>)
         | None \<Rightarrow>
             (case response of
                None \<Rightarrow> None
              | Some r \<Rightarrow>
                  Some ((Some r, None),
                        s1\<lparr>conversation :=
                             AddAssistantMessage (AiResponse.Content r) (conversation s1)\<rparr>)))"

text \<open>
  The goroutine of \<^verbatim>\<open>Stream\<close>: it ranges over the client's channel until the channel is
  closed, adds every chunk's content to \<^verbatim>\<open>fullContent\<close>, forwards the chunk, and at a
  chunk with \<^verbatim>\<open>Finished\<close> adds the assistant message. It does not leave the loop there.
\<close>

fun Stream_collect :: "StreamChunk list \<Rightarrow> string \<Rightarrow> Conversation \<Rightarrow> Conversation" where
  "Stream_collect [] fullContent conv = conv"
| "Stream_collect (chunk # chunks) fullContent conv =
     (let fullContent' = fullContent @ StreamChunk.Content chunk
      in if Finished chunk
         then Stream_collect chunks fullContent' (AddAssistantMessage fullContent' conv)
         else Stream_collect chunks fullContent' conv)"

text \<open>
  \<^verbatim>\<open>Stream\<close> returns the wrapped channel (every chunk of the client's channel, in order)
  or the error; the session returned is the one reached when the goroutine has ended,
  that is, when the client's channel has been closed and drained.
\<close>

definition Stream ::
  "'c \<Rightarrow> string \<Rightarrow> 'c ChatSession \<Rightarrow> (StreamChunk list option \<times> go_error option) \<times> 'c ChatSession" where
  "Stream ctx message s =
     (let s1 = s\<lparr>conversation := AddUserMessage message (conversation s)\<rparr>;
          (chunks, err) = StreamConversation (client s1) ctx (conversation s1)
      in case err of
           Some e \<Rightarrow>
             ((None, Some e), s1\<lparr>conversation := remove_last_message (conversation s1)\<rparr>)
         | None \<Rightarrow>
             ((Some chunks, None),
              s1\<lparr>conversation := Stream_collect chunks [] (conversation s1)\<rparr>))"

section \<open>Retry engine\<close>

text \<open>
  \<^verbatim>\<open>time.Duration\<close> is an int64 count of nanoseconds: arithmetic wraps around, and
  comparisons read the word as signed.
\<close>

type_synonym Duration = "64 word"

definition Second :: Duration where
  "Second = 1000000000"

text \<open>
  What the retry loops use of a \<^verbatim>\<open>context.Context\<close>: in the \<^verbatim>\<open>select\<close> that follows the
  attempt numbered \<open>a\<close>, whether \<^verbatim>\<open>ctx.Done()\<close> is received before the timer
  (\<open>Done_first ctx a\<close>), and the error \<^verbatim>\<open>ctx.Err()\<close> reports then.
\<close>

record Context =
  Done_first :: "int \<Rightarrow> bool"
  Err :: go_error

text \<open>
  A run of a retry loop is observed through its events, in order: an invocation of the
  operation with what it returned, a back-off wait that lasted its whole delay, and a
  wait that the context cut short (after which the loop returns \<^verbatim>\<open>ctx.Err()\<close>).
\<close>

datatype event = is_Invoke: Invoke "go_error option" | Sleep Duration | Cancelled Duration

text \<open>
  The loop shared by \<^verbatim>\<open>ExecuteWithRetry\<close> and \<^verbatim>\<open>ExecuteWithExponentialBackoff\<close>, whose
  bodies differ only in the expression of the delay (\<open>delay_of attempt\<close>):
  \<^verbatim>\<open>for attempt := 0; attempt <= retries; attempt++ { ... }; return lastErr\<close>.
  The operation is a closure with effects: it maps the state before the call to the
  error it returns (\<open>None\<close> for nil) and the state after. The loop returns the error,
  the events and the final state. \<open>retries\<close> and \<open>attempt\<close> are Go ints; the counter
  never passes \<open>retries\<close> (the loop is left at \<open>attempt = retries\<close>), so it cannot wrap.
\<close>

function retry_loop ::
  "(int \<Rightarrow> Duration) \<Rightarrow> Context \<Rightarrow> int \<Rightarrow> ('s \<Rightarrow> go_error option \<times> 's) \<Rightarrow> int \<Rightarrow> go_error option \<Rightarrow> 's
     \<Rightarrow> go_error option \<times> event list \<times> 's" where
  "retry_loop delay_of ctx retries operation attempt lastErr s =
     (if attempt \<le> retries then
        (case operation s of (err, s') \<Rightarrow>
           (case err of
              None \<Rightarrow> (None, [Invoke None], s')
            | Some e \<Rightarrow>
                if \<not> IsRetryableError e then (Some e, [Invoke (Some e)], s')
                else if attempt = retries then (Some e, [Invoke (Some e)], s')
                else if Done_first ctx attempt
                  then (Some (Err ctx), [Invoke (Some e), Cancelled (delay_of attempt)], s')
                else (case retry_loop delay_of ctx retries operation (attempt + 1) (Some e) s' of
                        (r, tr, s'') \<Rightarrow>
                          (r, Invoke (Some e) # Sleep (delay_of attempt) # tr, s''))))
      else (lastErr, [], s))"
  by pat_completeness auto
termination
  by (relation "measure (\<lambda>(delay_of, ctx, retries, operation, attempt, lastErr, s).
        nat (retries + 1 - attempt))") auto

declare retry_loop.simps [simp del]

text \<open>\<^verbatim>\<open>delay := time.Duration(attempt+1) * time.Second\<close>\<close>

definition linear_delay :: "int \<Rightarrow> Duration" where
  "linear_delay attempt = word_of_int (attempt + 1) * Second"

definition ExecuteWithRetry ::
  "Context \<Rightarrow> int \<Rightarrow> ('s \<Rightarrow> go_error option \<times> 's) \<Rightarrow> 's \<Rightarrow> go_error option \<times> event list \<times> 's" where
  "ExecuteWithRetry ctx retries operation s =
     retry_loop linear_delay ctx retries operation 0 None s"

text \<open>
  \<^verbatim>\<open>time.Duration(math.Pow(2, float64(attempt)))\<close>: up to \<open>attempt = 62\<close> the power is
  exact and fits an int64. From 63 on the float is out of the range of int64 and Go
  leaves the result of the conversion to the implementation: \<open>f2i\<close> is that result.
\<close>

definition pow2_Duration :: "(int \<Rightarrow> Duration) \<Rightarrow> int \<Rightarrow> Duration" where
  "pow2_Duration f2i attempt = (if attempt \<le> 62 then 2 ^ nat attempt else f2i attempt)"

text \<open>
  \<^verbatim>\<open>delay := time.Duration(math.Pow(2, float64(attempt))) * baseDelay\<close>, then
  \<^verbatim>\<open>if delay > 30*time.Second { delay = 30 * time.Second }\<close>.
\<close>

definition exponential_delay :: "(int \<Rightarrow> Duration) \<Rightarrow> Duration \<Rightarrow> int \<Rightarrow> Duration" where
  "exponential_delay f2i baseDelay attempt =
     (let delay = pow2_Duration f2i attempt * baseDelay
      in if 30 * Second <s delay then 30 * Second else delay)"

definition ExecuteWithExponentialBackoff ::
  "(int \<Rightarrow> Duration) \<Rightarrow> Context \<Rightarrow> int \<Rightarrow> Duration \<Rightarrow> ('s \<Rightarrow> go_error option \<times> 's) \<Rightarrow> 's
     \<Rightarrow> go_error option \<times> event list \<times> 's" where
  "ExecuteWithExponentialBackoff f2i ctx retries baseDelay operation s =
     retry_loop (exponential_delay f2i baseDelay) ctx retries operation 0 None s"

text \<open>The waits of a run that lasted their whole delay, and its number of invocations.\<close>

fun delays :: "event list \<Rightarrow> Duration list" where
  "delays [] = []"
| "delays (Sleep d # tr) = d # delays tr"
| "delays (e # tr) = delays tr"

definition invocations :: "event list \<Rightarrow> nat" where
  "invocations tr = length (filter is_Invoke tr)"

section \<open>Client configuration\<close>

type_synonym RetryStrategy = string

definition RetryStrategyFixed :: RetryStrategy where
  "RetryStrategyFixed = ''fixed''"
definition RetryStrategyLinear :: RetryStrategy where
  "RetryStrategyLinear = ''linear''"
definition RetryStrategyExponentialBackoff :: RetryStrategy where
  "RetryStrategyExponentialBackoff = ''exponential''"
definition RetryStrategyExponentialWithJitter :: RetryStrategy where
  "RetryStrategyExponentialWithJitter = ''exponential_with_jitter''"

text \<open>
  A \<^verbatim>\<open>float64\<close> as far as comparisons see it: a number, an infinity or NaN. \<open>f_less\<close> is
  Go's \<^verbatim>\<open><\<close> on it (false whenever an operand is NaN); \<^verbatim>\<open>x > y\<close> is \<open>f_less y x\<close>.
\<close>

datatype float64 = Num real | PosInf | NegInf | NaN

fun f_less :: "float64 \<Rightarrow> float64 \<Rightarrow> bool" where
  "f_less NaN y = False"
| "f_less x NaN = False"
| "f_less (Num a) (Num b) = (a < b)"
| "f_less x NegInf = False"
| "f_less NegInf y = True"
| "f_less PosInf y = False"
| "f_less (Num a) PosInf = True"

record ClientConfig =
  Timeout :: Duration
  Retries :: int
  Temperature :: "float64 option"
  MaxTokens :: "int option"
  TopP :: "float64 option"
  FrequencyPenalty :: "float64 option"
  PresencePenalty :: "float64 option"
  SystemMessage :: "string option"
  BaseURL :: "string option"
  RetryStrategy :: RetryStrategy

definition NewClientConfig :: ClientConfig where
  "NewClientConfig =
     \<lparr>Timeout = 30 * Second, Retries = 3, Temperature = None, MaxTokens = None, TopP = None,
      FrequencyPenalty = None, PresencePenalty = None, SystemMessage = None, BaseURL = None,
      RetryStrategy = RetryStrategyExponentialBackoff\<rparr>"

definition SetTimeout :: "Duration \<Rightarrow> ClientConfig \<Rightarrow> ClientConfig" where
  "SetTimeout timeout c = c\<lparr>Timeout := timeout\<rparr>"

definition SetRetries :: "int \<Rightarrow> ClientConfig \<Rightarrow> ClientConfig" where
  "SetRetries retries c = c\<lparr>Retries := retries\<rparr>"

definition SetTemperature :: "float64 \<Rightarrow> ClientConfig \<Rightarrow> ClientConfig" where
  "SetTemperature temperature c = c\<lparr>Temperature := Some temperature\<rparr>"

definition SetMaxTokens :: "int \<Rightarrow> ClientConfig \<Rightarrow> ClientConfig" where
  "SetMaxTokens maxTokens c = c\<lparr>MaxTokens := Some maxTokens\<rparr>"

definition SetTopP :: "float64 \<Rightarrow> ClientConfig \<Rightarrow> ClientConfig" where
  "SetTopP topP c = c\<lparr>TopP := Some topP\<rparr>"

definition SetRetryStrategy :: "RetryStrategy \<Rightarrow> ClientConfig \<Rightarrow> ClientConfig" where
  "SetRetryStrategy strategy c = c\<lparr>RetryStrategy := strategy\<rparr>"

text \<open>
  How the adapters run a request (\<^verbatim>\<open>OpenAIClient.SendConversation\<close>,
  \<^verbatim>\<open>ClaudeClient.SendConversation\<close>, \<^verbatim>\<open>GeminiClient.SendConversation\<close> and the streaming
  variants): \<^verbatim>\<open>err := ExecuteWithRetry(ctx, c.config.Retries, operation)\<close>.
\<close>

definition run_with_config ::
  "ClientConfig \<Rightarrow> Context \<Rightarrow> ('s \<Rightarrow> go_error option \<times> 's) \<Rightarrow> 's \<Rightarrow> go_error option \<times> event list \<times> 's" where
  "run_with_config config ctx operation s = ExecuteWithRetry ctx (Retries config) operation s"

text \<open>
  The strings \<^verbatim>\<open>ValidateConfig\<close> puts into its messages come from the Go library and
  from conversions: \<^verbatim>\<open>Duration.String()\<close>, \<^verbatim>\<open>string(rune(n))\<close> and \<^verbatim>\<open>int(x)\<close> of a float.
  They are parameters of the model.
\<close>

record Formatting =
  Duration_String :: "Duration \<Rightarrow> string"
  rune_string :: "int \<Rightarrow> string"
  float_int :: "float64 \<Rightarrow> int"

definition ValidateConfig :: "Formatting \<Rightarrow> ClientConfig \<Rightarrow> go_error option" where
  "ValidateConfig fmt config =
     (if Timeout config \<le>s 0 then
        Some (NewInvalidParameterError ''timeout'' (Duration_String fmt (Timeout config)))
      else if Retries config < 0 then
        Some (NewInvalidParameterError ''retries'' (rune_string fmt (Retries config)))
      else if Temperature config \<noteq> None \<and>
              (f_less (the (Temperature config)) (Num 0) \<or> f_less (Num 2) (the (Temperature config))) then
        Some (NewInvalidParameterError ''temperature''
               (rune_string fmt (float_int fmt (the (Temperature config)))))
      else if MaxTokens config \<noteq> None \<and> the (MaxTokens config) \<le> 0 then
        Some (NewInvalidParameterError ''max_tokens'' (rune_string fmt (the (MaxTokens config))))
      else if TopP config \<noteq> None \<and>
              (f_less (the (TopP config)) (Num 0) \<or> f_less (Num 1) (the (TopP config))) then
        Some (NewInvalidParameterError ''top_p''
               (rune_string fmt (float_int fmt (the (TopP config)))))
      else if FrequencyPenalty config \<noteq> None \<and>
              (f_less (the (FrequencyPenalty config)) (Num (- 2)) \<or>
               f_less (Num 2) (the (FrequencyPenalty config))) then
        Some (NewInvalidParameterError ''frequency_penalty''
               (rune_string fmt (float_int fmt (the (FrequencyPenalty config)))))
      else if PresencePenalty config \<noteq> None \<and>
              (f_less (the (PresencePenalty config)) (Num (- 2)) \<or>
               f_less (Num 2) (the (PresencePenalty config))) then
        Some (NewInvalidParameterError ''presence_penalty''
               (rune_string fmt (float_int fmt (the (PresencePenalty config)))))
      else None)"

section \<open>Fan-out and stream helpers\<close>

record ParallelResult =
  ClientName :: string
  Result :: string
  Error :: "go_error option"

text \<open>The body of one goroutine of \<^verbatim>\<open>ExecuteParallel\<close>: the value it writes to its slot.\<close>

definition prompt_task :: "'c \<Rightarrow> string \<Rightarrow> 'c AIClient \<Rightarrow> ParallelResult" where
  "prompt_task ctx prompt c =
     (let (result, err) = SendPrompt c ctx prompt
      in \<lparr>ClientName = Name c, Result = result, Error = err\<rparr>)"

text \<open>The body of one goroutine of \<^verbatim>\<open>ExecuteParallelConversation\<close>.\<close>

definition conversation_task :: "'c \<Rightarrow> Conversation \<Rightarrow> 'c AIClient \<Rightarrow> ParallelResult" where
  "conversation_task ctx conv c =
     (let (result, err) =
        (if SupportsConversations c then SendConversation c ctx conv
         else if length (Messages conv) > 0 then
           (let lastMessage = Messages conv ! (length (Messages conv) - 1)
            in if Role lastMessage = ''user''
               then SendPrompt c ctx (Message.Content lastMessage)
               else ([], Some (NewConfigError ''no user message found in conversation'')))
         else ([], Some (NewConfigError ''empty conversation'')))
      in \<lparr>ClientName = Name c, Result = result, Error = err\<rparr>)"

text \<open>
  \<^verbatim>\<open>results := make([]ParallelResult, len(clients))\<close> holds zero values; the goroutine
  started for index \<open>i\<close> writes \<^verbatim>\<open>results[i]\<close> when its call has returned. \<open>completion\<close>
  is the order in which the goroutines get to that write. \<^verbatim>\<open>wg.Wait()\<close> returns once
  every goroutine is done, so every index below \<open>length clients\<close> occurs in it.
\<close>

definition zero_ParallelResult :: ParallelResult where
  "zero_ParallelResult = \<lparr>ClientName = [], Result = [], Error = None\<rparr>"

definition fan_out :: "('a \<Rightarrow> ParallelResult) \<Rightarrow> nat list \<Rightarrow> 'a list \<Rightarrow> ParallelResult list" where
  "fan_out task completion clients =
     foldl (\<lambda>results index. results[index := task (clients ! index)])
       (replicate (length clients) zero_ParallelResult) completion"

definition ExecuteParallel :: "nat list \<Rightarrow> 'c \<Rightarrow> 'c AIClient list \<Rightarrow> string \<Rightarrow> ParallelResult list" where
  "ExecuteParallel completion ctx clients prompt =
     fan_out (prompt_task ctx prompt) completion clients"

definition ExecuteParallelConversation ::
  "nat list \<Rightarrow> 'c \<Rightarrow> 'c AIClient list \<Rightarrow> Conversation \<Rightarrow> ParallelResult list" where
  "ExecuteParallelConversation completion ctx clients conv =
     fan_out (conversation_task ctx conv) completion clients"

text \<open>
  \<^verbatim>\<open>MergeStreamChunks\<close> ranges over the channel and leaves the loop at a chunk with
  \<^verbatim>\<open>Finished\<close>. The loop returns the string and the chunks it has not read.
\<close>

fun MergeStreamChunks_loop :: "string \<Rightarrow> StreamChunk list \<Rightarrow> string \<times> StreamChunk list" where
  "MergeStreamChunks_loop result [] = (result, [])"
| "MergeStreamChunks_loop result (chunk # chunks) =
     (let result' = result @ StreamChunk.Content chunk
      in if Finished chunk then (result', chunks)
         else MergeStreamChunks_loop result' chunks)"

definition MergeStreamChunks :: "StreamChunk list \<Rightarrow> (string \<times> go_error option) \<times> StreamChunk list" where
  "MergeStreamChunks chunks =
     (case MergeStreamChunks_loop [] chunks of (result, unread) \<Rightarrow> ((result, None), unread))"

section \<open>Example inputs\<close>

text \<open>Concrete errors, operations, contexts and clients at which the theorems below are run.\<close>

definition network_error :: go_error where
  "network_error =
     ClientError ErrorTypeNetwork ''connection_failed'' ''failed to connect to the API server'' None"

definition auth_error :: go_error where
  "auth_error = ClientError ErrorTypeAuth ''invalid_api_key'' ''invalid or missing API key'' None"

text \<open>
  Operations whose state counts their invocations: one that always fails to connect, one
  that fails to connect twice and then succeeds, one that is refused its API key.
\<close>

definition unreachable :: "nat \<Rightarrow> go_error option \<times> nat" where
  "unreachable n = (Some network_error, Suc n)"

definition flaky :: "nat \<Rightarrow> go_error option \<times> nat" where
  "flaky n = (if n < 2 then Some network_error else None, Suc n)"

definition denied :: "nat \<Rightarrow> go_error option \<times> nat" where
  "denied n = (Some auth_error, Suc n)"

text \<open>\<^verbatim>\<open>context.Background()\<close> is never done; a cancelled context is done in every wait.\<close>

definition background :: Context where
  "background = \<lparr>Done_first = (\<lambda>attempt. False), Err = OtherError ''context canceled''\<rparr>"

definition cancelled_context :: Context where
  "cancelled_context = \<lparr>Done_first = (\<lambda>attempt. True), Err = OtherError ''context canceled''\<rparr>"

definition failing_client :: "unit AIClient" where
  "failing_client =
     \<lparr>SendPrompt = (\<lambda>ctx prompt. ([], Some network_error)),
      SendConversation = (\<lambda>ctx conv. ([], Some network_error)),
      SendConversationWithMetadata = (\<lambda>ctx conv. (None, Some network_error)),
      StreamConversation = (\<lambda>ctx conv. ([], Some network_error)),
      SupportsStreaming = True, SupportsConversations = True,
      Name = ''Failing'', Model = ''none''\<rparr>"

text \<open>A client with conversations that answers every request.\<close>

definition answering_client :: "unit AIClient" where
  "answering_client =
     \<lparr>SendPrompt = (\<lambda>ctx prompt. (''answer to a prompt'', None)),
      SendConversation = (\<lambda>ctx conv. (''answer to a conversation'', None)),
      SendConversationWithMetadata = (\<lambda>ctx conv. (None, Some network_error)),
      StreamConversation = (\<lambda>ctx conv. ([], Some network_error)),
      SupportsStreaming = True, SupportsConversations = True,
      Name = ''Answering'', Model = ''none''\<rparr>"

text \<open>A client without conversations that answers a prompt by repeating it.\<close>

definition echo_client :: "unit AIClient" where
  "echo_client =
     \<lparr>SendPrompt = (\<lambda>ctx prompt. (''echo: '' @ prompt, None)),
      SendConversation = (\<lambda>ctx conv. (''conversation'', None)),
      SendConversationWithMetadata = (\<lambda>ctx conv. (None, Some network_error)),
      StreamConversation = (\<lambda>ctx conv. ([], Some network_error)),
      SupportsStreaming = False, SupportsConversations = False,
      Name = ''Echo'', Model = ''none''\<rparr>"

text \<open>
  A client whose stream delivers one chunk and is then closed with no chunk marked
  finished, as \<^verbatim>\<open>OpenAIClient.streamRequest\<close> does when the response body ends before a
  \<^verbatim>\<open>[DONE]\<close> line or a finish reason (its scanner loop ends and it returns nil).
\<close>

definition truncated_client :: "unit AIClient" where
  "truncated_client =
     \<lparr>SendPrompt = (\<lambda>ctx prompt. ([], Some network_error)),
      SendConversation = (\<lambda>ctx conv. ([], Some network_error)),
      SendConversationWithMetadata = (\<lambda>ctx conv. (None, Some network_error)),
      StreamConversation =
        (\<lambda>ctx conv. ([\<lparr>Content = ''Hel'', Finished = False, Metadata = None\<rparr>], None)),
      SupportsStreaming = True, SupportsConversations = True,
      Name = ''Truncated'', Model = ''none''\<rparr>"

section \<open>Properties of the error taxonomy\<close>

lemmas ErrorType_defs =
  ErrorTypeNetwork_def ErrorTypeAPI_def ErrorTypeAuth_def
  ErrorTypeConfig_def ErrorTypeParse_def ErrorTypeStream_def

text \<open>
  C3. For every ClientError, IsRetryableError is true exactly when the kind is network, or
  the kind is api and the code is rate_limit or server_error; it is false for every auth,
  config, parse and stream error. IsAuthenticationError is true exactly when the kind is
  auth. Neither result changes when the message and the wrapped cause are replaced: both
  are functions of the pair (kind, code).
\<close>

theorem error_classification:
  "IsRetryableError (ClientError t c m cause) =
     (t = ''network'' \<or> (t = ''api'' \<and> (c = ''rate_limit'' \<or> c = ''server_error'')))
   \<and> IsAuthenticationError (ClientError t c m cause) = (t = ''auth'')
   \<and> \<not> IsRetryableError (ClientError ErrorTypeAuth c m cause)
   \<and> \<not> IsRetryableError (ClientError ErrorTypeConfig c m cause)
   \<and> \<not> IsRetryableError (ClientError ErrorTypeParse c m cause)
   \<and> \<not> IsRetryableError (ClientError ErrorTypeStream c m cause)
   \<and> IsRetryableError (ClientError t c m' cause') = IsRetryableError (ClientError t c m cause)
   \<and> IsAuthenticationError (ClientError t c m' cause') =
       IsAuthenticationError (ClientError t c m cause)"
  by (simp add: ErrorType_defs)

lemma IsRetryableError_network_error: "IsRetryableError network_error"
  by (simp add: network_error_def)

lemma not_IsRetryableError_auth_error: "\<not> IsRetryableError auth_error"
  by (simp add: auth_error_def ErrorType_defs)

section \<open>Properties of chat sessions\<close>

lemma remove_last_message_AddMessage:
  "remove_last_message (AddMessage role content c) = c"
  by (simp add: remove_last_message_def AddMessage_def)

text \<open>
  C1. When the client call of Send fails, Send returns the empty string with the client's
  error and the session is the one before the call: the user message appended before the
  call has been removed again, so the conversation has the same messages (and the same
  length) as before. The same holds for SendWithMetadata, which returns a nil response
  with the error.
\<close>

theorem Send_failure_restores_conversation:
  "(SendConversation (client s) ctx (AddUserMessage message (conversation s)) = (r, Some e)
      \<longrightarrow> Send ctx message s = (([], Some e), s))
   \<and> (SendConversationWithMetadata (client s) ctx (AddUserMessage message (conversation s))
         = (r', Some e')
      \<longrightarrow> SendWithMetadata ctx message s = Some ((None, Some e'), s))"
  by (simp add: Send_def SendWithMetadata_def AddUserMessage_def remove_last_message_AddMessage)

theorem Send_failure_restores_conversation_witness:
  "Send () ''hi'' \<lparr>client = failing_client, conversation = AddSystemMessage ''be brief'' NewConversation\<rparr>
     = (([], Some network_error),
        \<lparr>client = failing_client, conversation = AddSystemMessage ''be brief'' NewConversation\<rparr>)
   \<and> SendWithMetadata () ''hi''
        \<lparr>client = failing_client, conversation = AddSystemMessage ''be brief'' NewConversation\<rparr>
     = Some ((None, Some network_error),
        \<lparr>client = failing_client, conversation = AddSystemMessage ''be brief'' NewConversation\<rparr>)"
  using Send_failure_restores_conversation
    [of "\<lparr>client = failing_client, conversation = AddSystemMessage ''be brief'' NewConversation\<rparr>"
        "()" "''hi''" "[]" network_error None network_error]
  by (simp add: failing_client_def)

text \<open>
  What Stream does by design: a failure to start the stream restores the session, and a
  stream that ends with its only finished chunk adds one assistant message holding the
  contents of all chunks.
\<close>

lemma Stream_start_failure:
  "StreamConversation (client s) ctx (AddUserMessage message (conversation s)) = (chunks, Some e)
   \<Longrightarrow> Stream ctx message s = ((None, Some e), s)"
  by (simp add: Stream_def AddUserMessage_def remove_last_message_AddMessage)

lemma Stream_collect_append:
  "\<forall>chunk \<in> set pre. \<not> Finished chunk \<Longrightarrow>
   Stream_collect (pre @ rest) acc conv
     = Stream_collect rest (acc @ concat (map StreamChunk.Content pre)) conv"
  by (induction pre arbitrary: acc) (simp_all add: Let_def)

lemma Stream_terminated:
  assumes "StreamConversation (client s) ctx (AddUserMessage message (conversation s))
      = (pre @ [final], None)"
    and "\<forall>chunk \<in> set pre. \<not> Finished chunk" and "Finished final"
  shows "conversation (snd (Stream ctx message s))
     = AddAssistantMessage (concat (map StreamChunk.Content (pre @ [final])))
         (AddUserMessage message (conversation s))"
  using assms by (simp add: Stream_def Stream_collect_append Let_def)

text \<open>A stream with no finished chunk leaves the conversation as it is after the append.\<close>

lemma Stream_collect_unfinished:
  "\<forall>chunk \<in> set chunks. \<not> Finished chunk \<Longrightarrow> Stream_collect chunks acc conv = conv"
  by (induction chunks arbitrary: acc) (simp_all add: Let_def)

lemma Stream_unfinished:
  assumes "StreamConversation (client s) ctx (AddUserMessage message (conversation s)) = (chunks, None)"
    and "\<forall>chunk \<in> set chunks. \<not> Finished chunk"
  shows "Stream ctx message s =
     ((Some chunks, None), s\<lparr>conversation := AddUserMessage message (conversation s)\<rparr>)"
  using assms by (simp add: Stream_def Stream_collect_unfinished)

text \<open>
  C8 fails on the code. Stream is given a client whose chunk sequence ends with no chunk
  marked finished. Stream returns the chunks with a nil error, and when the sequence has
  been drained the conversation of the new session consists of the user message alone:
  the message has neither been removed nor been followed by an assistant message.
\<close>

theorem Stream_truncated_leaves_user_message:
  "fst (Stream () ''hello'' (NewChatSession truncated_client))
     = (Some [\<lparr>Content = ''Hel'', Finished = False, Metadata = None\<rparr>], None)
   \<and> Messages (conversation (snd (Stream () ''hello'' (NewChatSession truncated_client))))
     = [\<lparr>Role = ''user'', Content = ''hello''\<rparr>]"
  by (simp add: Stream_def truncated_client_def NewChatSession_def AddUserMessage_def
      AddMessage_def NewConversation_def)

section \<open>Properties of the retry engine\<close>

lemma retry_loop_cases:
  assumes "retry_loop d ctx retries operation attempt lastErr s = (ret, tr, s')"
  obtains
    (exhausted) "retries < attempt" "ret = lastErr" "tr = []" "s' = s"
  | (final) "attempt \<le> retries" "operation s = (ret, s')" "tr = [Invoke ret]"
      "ret = None \<or> (\<exists>e. ret = Some e \<and> (\<not> IsRetryableError e \<or> attempt = retries))"
  | (cancelled) e where "attempt < retries" "operation s = (Some e, s')" "IsRetryableError e"
      "Done_first ctx attempt" "tr = [Invoke (Some e), Cancelled (d attempt)]" "ret = Some (Err ctx)"
  | (again) e s1 tr1 where "attempt < retries" "operation s = (Some e, s1)" "IsRetryableError e"
      "\<not> Done_first ctx attempt"
      "retry_loop d ctx retries operation (attempt + 1) (Some e) s1 = (ret, tr1, s')"
      "tr = Invoke (Some e) # Sleep (d attempt) # tr1"
  using assms
  by (subst (asm) retry_loop.simps) (auto split: prod.splits option.splits if_splits)

lemma retry_loop_invocations:
  "retry_loop d ctx retries operation attempt lastErr s = (ret, tr, s') \<Longrightarrow>
   invocations tr \<le> nat (retries + 1 - attempt)"
proof (induction "nat (retries + 1 - attempt)" arbitrary: attempt lastErr s tr)
  case 0
  from "0.prems" show ?case
    by (cases rule: retry_loop_cases) (use "0.hyps" in \<open>auto simp: invocations_def\<close>)
next
  case (Suc n)
  from Suc.prems show ?case
  proof (cases rule: retry_loop_cases)
    case (again e s1 tr1)
    have "n = nat (retries + 1 - (attempt + 1))" using Suc.hyps(2) by simp
    from Suc.hyps(1) [OF this again(5)] again show ?thesis
      by (simp add: invocations_def)
  qed (use Suc.hyps in \<open>auto simp: invocations_def\<close>)
qed

lemma retry_loop_success_last:
  "retry_loop d ctx retries operation attempt lastErr s = (ret, tr, s') \<Longrightarrow>
   tr = pre @ Invoke None # post \<Longrightarrow> post = [] \<and> ret = None"
proof (induction "nat (retries + 1 - attempt)" arbitrary: attempt lastErr s tr pre)
  case 0
  from "0.prems"(1) show ?case
    by (cases rule: retry_loop_cases) (use "0.hyps" "0.prems"(2) in auto)
next
  case (Suc n)
  from Suc.prems(1) show ?case
  proof (cases rule: retry_loop_cases)
    case (again e s1 tr1)
    have n: "n = nat (retries + 1 - (attempt + 1))" using Suc.hyps(2) by simp
    from again(6) Suc.prems(2) obtain pre1 where "tr1 = pre1 @ Invoke None # post"
      by (auto simp: Cons_eq_append_conv append_eq_Cons_conv)
    from Suc.hyps(1) [OF n again(5) this] show ?thesis .
  qed (use Suc.prems(2) in \<open>auto simp: Cons_eq_append_conv append_eq_Cons_conv\<close>)
qed

lemma retry_loop_fatal_last:
  "retry_loop d ctx retries operation attempt lastErr s = (ret, tr, s') \<Longrightarrow>
   tr = pre @ Invoke (Some e) # post \<Longrightarrow> \<not> IsRetryableError e \<Longrightarrow> post = [] \<and> ret = Some e"
proof (induction "nat (retries + 1 - attempt)" arbitrary: attempt lastErr s tr pre)
  case 0
  from "0.prems"(1) show ?case
    by (cases rule: retry_loop_cases) (use "0.hyps" "0.prems"(2) in auto)
next
  case (Suc n)
  from Suc.prems(1) show ?case
  proof (cases rule: retry_loop_cases)
    case (again e1 s1 tr1)
    have n: "n = nat (retries + 1 - (attempt + 1))" using Suc.hyps(2) by simp
    from again(3,6) Suc.prems(2,3) obtain pre1 where "tr1 = pre1 @ Invoke (Some e) # post"
      by (auto simp: Cons_eq_append_conv append_eq_Cons_conv)
    from Suc.hyps(1) [OF n again(5) this Suc.prems(3)] show ?thesis .
  qed (use Suc.prems(2,3) in \<open>auto simp: Cons_eq_append_conv append_eq_Cons_conv\<close>)
qed

lemma retry_loop_nonempty:
  "retry_loop d ctx retries operation attempt lastErr s = (ret, tr, s') \<Longrightarrow>
   attempt \<le> retries \<Longrightarrow> \<exists>r tr1. tr = Invoke r # tr1"
  by (erule retry_loop_cases) auto

lemma retry_loop_sleep_then_invoke:
  "retry_loop d ctx retries operation attempt lastErr s = (ret, tr, s') \<Longrightarrow>
   tr = pre @ Sleep dl # post \<Longrightarrow> \<exists>r post'. post = Invoke r # post'"
proof (induction "nat (retries + 1 - attempt)" arbitrary: attempt lastErr s tr pre)
  case 0
  from "0.prems"(1) show ?case
    by (cases rule: retry_loop_cases) (use "0.hyps" "0.prems"(2) in auto)
next
  case (Suc n)
  from Suc.prems(1) show ?case
  proof (cases rule: retry_loop_cases)
    case (again e1 s1 tr1)
    have n: "n = nat (retries + 1 - (attempt + 1))" using Suc.hyps(2) by simp
    from again(6) Suc.prems(2)
    consider (here) "pre = [Invoke (Some e1)]" "post = tr1"
      | (later) pre1 where "tr1 = pre1 @ Sleep dl # post"
      by (auto simp: Cons_eq_append_conv append_eq_Cons_conv)
    then show ?thesis
    proof cases
      case here
      from retry_loop_nonempty [OF again(5)] again(1) here show ?thesis by auto
    next
      case later
      from Suc.hyps(1) [OF n again(5) later] show ?thesis .
    qed
  qed (use Suc.prems(2) in \<open>auto simp: Cons_eq_append_conv append_eq_Cons_conv\<close>)
qed

lemma retry_loop_last_event:
  "retry_loop d ctx retries operation attempt lastErr s = (ret, tr, s') \<Longrightarrow> attempt \<le> retries \<Longrightarrow>
   (\<exists>r. last tr = Invoke r \<and> ret = r) \<or> (\<exists>dl. last tr = Cancelled dl \<and> ret = Some (Err ctx) \<and> (\<exists>a. Done_first ctx a))"
proof (induction "nat (retries + 1 - attempt)" arbitrary: attempt lastErr s tr)
  case 0
  then show ?case by simp
next
  case (Suc n)
  from Suc.prems(1) show ?case
  proof (cases rule: retry_loop_cases)
    case (again e1 s1 tr1)
    have n: "n = nat (retries + 1 - (attempt + 1))" using Suc.hyps(2) by simp
    from retry_loop_nonempty [OF again(5)] again(1) have ne: "tr1 \<noteq> []" by auto
    from Suc.hyps(1) [OF n again(5)] again(1,6) ne show ?thesis by simp
  qed (use Suc.prems(2) in auto)
qed

lemma retry_loop_all_attempts:
  "retry_loop d ctx retries operation attempt lastErr s = (ret, tr, s') \<Longrightarrow> attempt \<le> retries \<Longrightarrow>
   invocations tr = nat (retries + 1 - attempt) \<Longrightarrow> \<exists>r. last tr = Invoke r \<and> ret = r"
proof (induction "nat (retries + 1 - attempt)" arbitrary: attempt lastErr s tr)
  case 0
  then show ?case by simp
next
  case (Suc n)
  from Suc.prems(1) show ?case
  proof (cases rule: retry_loop_cases)
    case (again e1 s1 tr1)
    have n: "n = nat (retries + 1 - (attempt + 1))" using Suc.hyps(2) by simp
    from retry_loop_nonempty [OF again(5)] again(1) have ne: "tr1 \<noteq> []" by auto
    from Suc.prems(3) again(1,6) have "invocations tr1 = nat (retries + 1 - (attempt + 1))"
      by (simp add: invocations_def)
    from Suc.hyps(1) [OF n again(5) _ this] again(1,6) ne show ?thesis by simp
  next
    case (cancelled e1)
    with Suc.prems(3) show ?thesis by (simp add: invocations_def)
  qed (use Suc.prems(2) in auto)
qed

lemma retry_loop_single:
  "retry_loop d ctx retries operation retries lastErr s =
     (fst (operation s), [Invoke (fst (operation s))], snd (operation s))"
  by (subst retry_loop.simps) (auto split: prod.splits option.splits)


lemma retry_loop_delays_nth:
  "retry_loop d ctx retries operation attempt lastErr s = (ret, tr, s') \<Longrightarrow>
   i < length (delays tr) \<Longrightarrow> delays tr ! i = d (attempt + int i)"
proof (induction "nat (retries + 1 - attempt)" arbitrary: attempt lastErr s tr i)
  case 0
  from "0.prems"(1) show ?case
    by (cases rule: retry_loop_cases) (use "0.hyps" "0.prems"(2) in auto)
next
  case (Suc n)
  from Suc.prems(1) show ?case
  proof (cases rule: retry_loop_cases)
    case (again e1 s1 tr1)
    have n: "n = nat (retries + 1 - (attempt + 1))" using Suc.hyps(2) by simp
    show ?thesis
    proof (cases i)
      case 0
      with again(6) show ?thesis by simp
    next
      case (Suc j)
      with Suc.prems(2) again(6) have "j < length (delays tr1)" by simp
      from Suc.hyps(1) [OF n again(5) this] Suc again(6) show ?thesis
        by (simp add: add.commute add.left_commute)
    qed
  qed (use Suc.prems(2) in auto)
qed

text \<open>
  C2. For every retries >= 0 and every operation, a run of ExecuteWithRetry invokes the
  operation at most retries + 1 times. A successful invocation is the last event of the
  run and nil is returned; an invocation that returns a non-retryable error is the last
  event of the run and that error is returned. No delay follows the final invocation:
  every wait that lasted its whole delay is directly followed by another invocation; a
  run that has used all its retries + 1 invocations ends on the last of them; so does
  every run under a context that is never done; and the only other end of a run is a
  wait that the context cut short, after which ctx.Err() is returned with no further
  invocation. With retries = 0 the operation is invoked exactly once and its result is
  returned.
\<close>

theorem ExecuteWithRetry_attempts:
  assumes "0 \<le> retries"
    and "ExecuteWithRetry ctx retries operation s = (ret, tr, s')"
  shows "invocations tr \<le> nat (retries + 1)
    \<and> (\<forall>pre post. tr = pre @ Invoke None # post \<longrightarrow> post = [] \<and> ret = None)
    \<and> (\<forall>pre e post. tr = pre @ Invoke (Some e) # post \<and> \<not> IsRetryableError e \<longrightarrow>
          post = [] \<and> ret = Some e)
    \<and> (\<forall>pre delay post. tr = pre @ Sleep delay # post \<longrightarrow> (\<exists>r post'. post = Invoke r # post'))
    \<and> ((\<exists>r. last tr = Invoke r \<and> ret = r)
        \<or> (\<exists>delay. last tr = Cancelled delay \<and> ret = Some (Err ctx) \<and> (\<exists>a. Done_first ctx a)))
    \<and> (invocations tr = nat (retries + 1) \<longrightarrow> (\<exists>r. last tr = Invoke r \<and> ret = r))
    \<and> ((\<forall>a. \<not> Done_first ctx a) \<longrightarrow> (\<exists>r. last tr = Invoke r \<and> ret = r))
    \<and> (retries = 0 \<longrightarrow>
          tr = [Invoke (fst (operation s))] \<and> invocations tr = 1 \<and> ret = fst (operation s))"
proof -
  note run = assms(2) [unfolded ExecuteWithRetry_def]
  have "invocations tr \<le> nat (retries + 1)"
    using retry_loop_invocations [OF run] by simp
  moreover have "\<forall>pre post. tr = pre @ Invoke None # post \<longrightarrow> post = [] \<and> ret = None"
    using retry_loop_success_last [OF run] by blast
  moreover have "\<forall>pre e post. tr = pre @ Invoke (Some e) # post \<and> \<not> IsRetryableError e \<longrightarrow>
          post = [] \<and> ret = Some e"
    using retry_loop_fatal_last [OF run] by blast
  moreover have "\<forall>pre delay post. tr = pre @ Sleep delay # post \<longrightarrow> (\<exists>r post'. post = Invoke r # post')"
    using retry_loop_sleep_then_invoke [OF run] by blast
  moreover have last: "(\<exists>r. last tr = Invoke r \<and> ret = r)
        \<or> (\<exists>delay. last tr = Cancelled delay \<and> ret = Some (Err ctx) \<and> (\<exists>a. Done_first ctx a))"
    using retry_loop_last_event [OF run assms(1)] .
  moreover have "invocations tr = nat (retries + 1) \<longrightarrow> (\<exists>r. last tr = Invoke r \<and> ret = r)"
    using retry_loop_all_attempts [OF run assms(1)] by simp
  moreover have "(\<forall>a. \<not> Done_first ctx a) \<longrightarrow> (\<exists>r. last tr = Invoke r \<and> ret = r)"
    using last by blast
  moreover have "retries = 0 \<longrightarrow>
          tr = [Invoke (fst (operation s))] \<and> invocations tr = 1 \<and> ret = fst (operation s)"
    using run by (auto simp: retry_loop_single invocations_def)
  ultimately show ?thesis by blast
qed

lemma flaky_run:
  "ExecuteWithRetry background 3 flaky 0 =
     (None,
      [Invoke (Some network_error), Sleep Second, Invoke (Some network_error), Sleep (2 * Second),
       Invoke None],
      3)"
  by (simp add: ExecuteWithRetry_def retry_loop.simps flaky_def background_def
      IsRetryableError_network_error linear_delay_def)

lemma denied_run:
  "ExecuteWithRetry background 3 denied 0 = (Some auth_error, [Invoke (Some auth_error)], 1)"
  by (simp add: ExecuteWithRetry_def retry_loop.simps denied_def not_IsRetryableError_auth_error)

lemma single_run:
  "ExecuteWithRetry background 0 unreachable 0 = (Some network_error, [Invoke (Some network_error)], 1)"
  by (simp add: ExecuteWithRetry_def retry_loop.simps unreachable_def IsRetryableError_network_error)

lemma cancelled_run:
  "ExecuteWithRetry cancelled_context 3 unreachable 0 =
     (Some (OtherError ''context canceled''), [Invoke (Some network_error), Cancelled Second], 1)"
  by (simp add: ExecuteWithRetry_def retry_loop.simps unreachable_def IsRetryableError_network_error
      cancelled_context_def linear_delay_def)

lemma exhausted_run:
  "ExecuteWithRetry background 2 unreachable 0 =
     (Some network_error,
      [Invoke (Some network_error), Sleep Second, Invoke (Some network_error), Sleep (2 * Second),
       Invoke (Some network_error)],
      3)"
  by (simp add: ExecuteWithRetry_def retry_loop.simps unreachable_def background_def
      IsRetryableError_network_error linear_delay_def)

theorem ExecuteWithRetry_attempts_witness:
  "(0 :: int) \<le> 3
   \<and> ExecuteWithRetry background 3 flaky 0 =
       (None,
        [Invoke (Some network_error), Sleep Second, Invoke (Some network_error), Sleep (2 * Second),
         Invoke None],
        3)
   \<and> invocations [Invoke (Some network_error), Sleep Second, Invoke (Some network_error),
        Sleep (2 * Second), Invoke None] \<le> nat (3 + 1)
   \<and> (\<exists>r. last [Invoke (Some network_error), Sleep Second, Invoke (Some network_error),
        Sleep (2 * Second), Invoke None] = Invoke r \<and> None = r)
   \<and> ExecuteWithRetry background 3 denied 0 = (Some auth_error, [Invoke (Some auth_error)], 1)
   \<and> invocations [Invoke (Some auth_error)] \<le> nat (3 + 1)
   \<and> ExecuteWithRetry background 0 unreachable 0
       = (Some network_error, [Invoke (Some network_error)], 1)
   \<and> invocations [Invoke (Some network_error)] = 1
   \<and> ExecuteWithRetry background 2 unreachable 0 =
       (Some network_error,
        [Invoke (Some network_error), Sleep Second, Invoke (Some network_error), Sleep (2 * Second),
         Invoke (Some network_error)],
        3)
   \<and> invocations [Invoke (Some network_error), Sleep Second, Invoke (Some network_error),
        Sleep (2 * Second), Invoke (Some network_error)] \<le> nat (2 + 1)
   \<and> ExecuteWithRetry cancelled_context 3 unreachable 0 =
       (Some (OtherError ''context canceled''), [Invoke (Some network_error), Cancelled Second], 1)
   \<and> invocations [Invoke (Some network_error), Cancelled Second] \<le> nat (3 + 1)"
proof -
  have h3: "(0 :: int) \<le> 3" by simp
  have h2: "(0 :: int) \<le> 2" by simp
  have h0: "(0 :: int) \<le> 0" by simp
  have bg: "\<forall>a. \<not> Done_first background a" by (simp add: background_def)
  note t1 = ExecuteWithRetry_attempts [OF h3 flaky_run]
  note t2 = ExecuteWithRetry_attempts [OF h3 denied_run]
  note t3 = ExecuteWithRetry_attempts [OF h0 single_run]
  note t4 = ExecuteWithRetry_attempts [OF h2 exhausted_run]
  note t5 = ExecuteWithRetry_attempts [OF h3 cancelled_run]
  from t1 have a: "invocations [Invoke (Some network_error), Sleep Second, Invoke (Some network_error),
        Sleep (2 * Second), Invoke None] \<le> nat (3 + 1)"
    by (rule conjunct1)
  from t1 bg have b: "\<exists>r. last [Invoke (Some network_error), Sleep Second, Invoke (Some network_error),
        Sleep (2 * Second), Invoke None] = Invoke r \<and> None = r"
    by blast
  from t2 have c: "invocations [Invoke (Some auth_error)] \<le> nat (3 + 1)"
    by (rule conjunct1)
  from t3 have d: "invocations [Invoke (Some network_error)] = 1"
    by blast
  from t4 have e: "invocations [Invoke (Some network_error), Sleep Second, Invoke (Some network_error),
        Sleep (2 * Second), Invoke (Some network_error)] \<le> nat (2 + 1)"
    by (rule conjunct1)
  from t5 have f: "invocations [Invoke (Some network_error), Cancelled Second] \<le> nat (3 + 1)"
    by (rule conjunct1)
  from h3 flaky_run a b denied_run c single_run d exhausted_run e cancelled_run f
  show ?thesis by blast
qed

subsection \<open>The delay of ExecuteWithRetry\<close>

text \<open>
  In every run of ExecuteWithRetry the wait after attempt \<open>i\<close> lasts \<open>i + 1\<close> seconds, and
  the strategy held by the configuration has no part in a run.
\<close>

lemma ExecuteWithRetry_delays:
  assumes "ExecuteWithRetry ctx retries operation s = (ret, tr, s')"
    and "i < length (delays tr)"
  shows "delays tr ! i = word_of_int (int i + 1) * Second"
  using retry_loop_delays_nth [OF assms(1) [unfolded ExecuteWithRetry_def] assms(2)]
  by (simp add: linear_delay_def)

lemma run_with_config_ignores_strategy:
  "run_with_config (SetRetryStrategy strategy config) ctx operation s
     = run_with_config config ctx operation s"
  by (simp add: run_with_config_def SetRetryStrategy_def)

text \<open>
  C7 fails on the code. A configuration with the fixed strategy and the default three
  retries is run, as the adapters run it, on an operation that fails to connect every
  time, under a context that is never done. The operation is invoked four times and the
  three waits between the invocations last 1, 2 and 3 seconds: the delay is not
  constant. ExecuteWithRetry receives neither the strategy nor a base delay.
\<close>

theorem fixed_strategy_delays_grow:
  "RetryStrategy (SetRetryStrategy RetryStrategyFixed NewClientConfig) = RetryStrategyFixed
   \<and> run_with_config (SetRetryStrategy RetryStrategyFixed NewClientConfig) background unreachable 0
     = (Some network_error,
        [Invoke (Some network_error), Sleep Second,
         Invoke (Some network_error), Sleep (2 * Second),
         Invoke (Some network_error), Sleep (3 * Second),
         Invoke (Some network_error)],
        4)"
  by (simp add: run_with_config_def SetRetryStrategy_def NewClientConfig_def ExecuteWithRetry_def
      retry_loop.simps unreachable_def background_def IsRetryableError_network_error
      linear_delay_def)

subsection \<open>The delay of ExecuteWithExponentialBackoff\<close>

text \<open>
  The delay never exceeds the cap. While the base delay is not negative and the product
  fits an int64, the delay is the product capped at 30 seconds and does not decrease
  with the attempt.
\<close>

lemma sint_30_seconds: "sint (30 * Second) = 30000000000"
  by (simp add: Second_def)

lemma exponential_delay_le_cap:
  "sint (exponential_delay f2i baseDelay attempt) \<le> 30000000000"
  by (simp add: exponential_delay_def Let_def word_sless_alt sint_30_seconds)

lemma sint_pow2_mult:
  fixes b :: Duration
  assumes "0 \<le> sint b" and "2 ^ n * sint b < 2 ^ 63"
  shows "sint (2 ^ n * b) = 2 ^ n * sint b"
proof -
  have "2 ^ n * b = word_of_int (2 ^ n * sint b)"
    by simp
  then have "sint (2 ^ n * b) = signed_take_bit 63 (2 ^ n * sint b)"
    by (simp only: sint_sbintrunc') simp
  also have "\<dots> = 2 ^ n * sint b"
  proof (rule signed_take_bit_int_eq_self)
    have "(0::int) \<le> 2 ^ n * sint b"
      using assms(1) by simp
    then show "- (2 ^ 63) \<le> 2 ^ n * sint b"
      by (rule order_trans [rotated]) simp
    show "2 ^ n * sint b < 2 ^ 63"
      by (rule assms(2))
  qed
  finally show ?thesis .
qed

lemma exponential_delay_in_range:
  assumes "0 \<le> sint baseDelay" and "attempt \<le> 62"
    and "2 ^ nat attempt * sint baseDelay < 2 ^ 63"
  shows "sint (exponential_delay f2i baseDelay attempt)
     = min (2 ^ nat attempt * sint baseDelay) 30000000000"
  using assms(2) sint_pow2_mult [OF assms(1,3)]
  by (auto simp: exponential_delay_def Let_def pow2_Duration_def word_sless_alt sint_30_seconds)

lemma exponential_delay_mono_in_range:
  assumes "0 \<le> sint baseDelay" and "0 \<le> a" and "a \<le> b" and "b \<le> 62"
    and "2 ^ nat b * sint baseDelay < 2 ^ 63"
  shows "sint (exponential_delay f2i baseDelay a) \<le> sint (exponential_delay f2i baseDelay b)"
proof -
  have le: "(2::int) ^ nat a \<le> 2 ^ nat b"
    using assms(2,3) by (intro power_increasing) simp_all
  then have m: "2 ^ nat a * sint baseDelay \<le> 2 ^ nat b * sint baseDelay"
    using assms(1) by (rule mult_right_mono)
  with assms(5) have "2 ^ nat a * sint baseDelay < 2 ^ 63"
    by linarith
  with assms m show ?thesis
    by (simp add: exponential_delay_in_range)
qed

lemma ExecuteWithExponentialBackoff_delays:
  assumes "ExecuteWithExponentialBackoff f2i ctx retries baseDelay operation s = (ret, tr, s')"
    and "i < length (delays tr)"
  shows "delays tr ! i = exponential_delay f2i baseDelay (int i)"
  using retry_loop_delays_nth [OF assms(1) [unfolded ExecuteWithExponentialBackoff_def] assms(2)]
  by simp

lemma exponential_delay_33: "exponential_delay f2i Second 33 = 30 * Second"
  by (simp add: exponential_delay_def pow2_Duration_def Second_def word_sless_alt)

lemma exponential_delay_34: "sint (exponential_delay f2i Second 34) = - 1266874889709551616"
  by (simp add: exponential_delay_def pow2_Duration_def Second_def word_sless_alt)

text \<open>
  C6 fails on the code. ExecuteWithExponentialBackoff is run with retries = 35 and
  baseDelay = 1 second on an operation that fails to connect every time, under a context
  that is never done. The wait after attempt 33 lasts the cap of 30 seconds. For attempt
  34 the product 2^34 * 10^9 nanoseconds does not fit an int64 and wraps around to
  -1266874889709551616 nanoseconds, which the cap lets through: the delay is neither
  baseDelay * 2^34 capped at 30 seconds nor at least the delay before it.
\<close>

theorem exponential_backoff_overflow:
  "delays (fst (snd (ExecuteWithExponentialBackoff f2i background 35 Second unreachable 0))) ! 33
     = 30 * Second
   \<and> sint (delays (fst (snd (ExecuteWithExponentialBackoff f2i background 35 Second unreachable 0))) ! 34)
     = - 1266874889709551616
   \<and> sint (delays (fst (snd (ExecuteWithExponentialBackoff f2i background 35 Second unreachable 0))) ! 34)
     < sint (delays (fst (snd (ExecuteWithExponentialBackoff f2i background 35 Second unreachable 0))) ! 33)"
  by (simp add: ExecuteWithExponentialBackoff_def retry_loop.simps unreachable_def background_def
      IsRetryableError_network_error exponential_delay_33 exponential_delay_34 sint_30_seconds)

section \<open>Properties of the fan-out\<close>

lemma fan_out_foldl:
  "length rs = length clients \<Longrightarrow> set completion \<subseteq> {0..<length clients} \<Longrightarrow>
   foldl (\<lambda>results index. results[index := task (clients ! index)]) rs completion =
     map (\<lambda>i. if i \<in> set completion then task (clients ! i) else rs ! i) [0..<length clients]"
proof (induction completion arbitrary: rs)
  case Nil
  then show ?case by (intro nth_equalityI) simp_all
next
  case (Cons a completion)
  have "length (rs[a := task (clients ! a)]) = length clients"
    using Cons.prems(1) by simp
  moreover have "set completion \<subseteq> {0..<length clients}"
    using Cons.prems(2) by simp
  ultimately have "foldl (\<lambda>results index. results[index := task (clients ! index)])
      (rs[a := task (clients ! a)]) completion =
    map (\<lambda>i. if i \<in> set completion then task (clients ! i) else rs[a := task (clients ! a)] ! i)
      [0..<length clients]"
    by (rule Cons.IH)
  then show ?case
    using Cons.prems by (auto simp: nth_list_update)
qed

lemma fan_out_length: "length (fan_out task completion clients) = length clients"
proof -
  have "length (foldl (\<lambda>results index. results[index := task (clients ! index)]) rs completion)
      = length rs" for rs
    by (induction completion arbitrary: rs) simp_all
  then show ?thesis by (simp add: fan_out_def)
qed

lemma fan_out_map:
  assumes "set completion = {0..<length clients}"
  shows "fan_out task completion clients = map task clients"
proof -
  have "fan_out task completion clients =
      map (\<lambda>i. if i \<in> set completion then task (clients ! i) else replicate (length clients) zero_ParallelResult ! i)
        [0..<length clients]"
    unfolding fan_out_def using assms by (intro fan_out_foldl) simp_all
  also have "\<dots> = map (\<lambda>i. task (clients ! i)) [0..<length clients]"
    using assms by simp
  also have "\<dots> = map task clients"
    by (intro nth_equalityI) simp_all
  finally show ?thesis .
qed

lemma nth_last_index: "xs \<noteq> [] \<Longrightarrow> xs ! (length xs - Suc 0) = last xs"
  by (simp add: last_conv_nth)

text \<open>What one goroutine of ExecuteParallelConversation writes, branch by branch.\<close>

lemma conversation_task_name: "ClientName (conversation_task ctx conv c) = Name c"
  by (simp add: conversation_task_def split: prod.splits)

lemma conversation_task_supported:
  "SupportsConversations c \<Longrightarrow>
   (Result (conversation_task ctx conv c), Error (conversation_task ctx conv c))
     = SendConversation c ctx conv"
  by (simp add: conversation_task_def split: prod.splits)

lemma conversation_task_last_user:
  "\<not> SupportsConversations c \<Longrightarrow> Messages conv \<noteq> [] \<Longrightarrow> Role (last (Messages conv)) = ''user'' \<Longrightarrow>
   (Result (conversation_task ctx conv c), Error (conversation_task ctx conv c))
     = SendPrompt c ctx (Message.Content (last (Messages conv)))"
  by (simp add: conversation_task_def nth_last_index Let_def split: prod.splits)

lemma conversation_task_last_other:
  "\<not> SupportsConversations c \<Longrightarrow> Messages conv \<noteq> [] \<Longrightarrow> Role (last (Messages conv)) \<noteq> ''user'' \<Longrightarrow>
   (Result (conversation_task ctx conv c), Error (conversation_task ctx conv c))
     = ([], Some (NewConfigError ''no user message found in conversation''))"
  by (simp add: conversation_task_def nth_last_index Let_def)

lemma conversation_task_empty:
  "\<not> SupportsConversations c \<Longrightarrow> Messages conv = [] \<Longrightarrow>
   (Result (conversation_task ctx conv c), Error (conversation_task ctx conv c))
     = ([], Some (NewConfigError ''empty conversation''))"
  by (simp add: conversation_task_def)

text \<open>
  C4. Whatever the order in which the goroutines complete, ExecuteParallel and
  ExecuteParallelConversation return one result per client, in the order of the clients:
  slot i holds the name of clients[i] and the result and error of its own call. For
  ExecuteParallel that call is SendPrompt on the prompt. For ExecuteParallelConversation
  it is SendConversation on the conversation when clients[i] supports conversations;
  otherwise it is SendPrompt on the content of the last message when that message has
  the role user, and else no call is made and the slot holds an empty result with the
  configuration error. The slot of a client is the same under any other completion
  order and with any other clients in the other slots, so a failure of one client
  changes no other slot.
\<close>

theorem ExecuteParallel_slots:
  assumes "set completion = {0..<length clients}"
  shows "ExecuteParallel completion ctx clients prompt = map (prompt_task ctx prompt) clients
    \<and> ExecuteParallelConversation completion ctx clients conv = map (conversation_task ctx conv) clients
    \<and> length (ExecuteParallel completion ctx clients prompt) = length clients
    \<and> length (ExecuteParallelConversation completion ctx clients conv) = length clients
    \<and> (\<forall>i < length clients.
          ClientName (ExecuteParallel completion ctx clients prompt ! i) = Name (clients ! i)
        \<and> (Result (ExecuteParallel completion ctx clients prompt ! i),
            Error (ExecuteParallel completion ctx clients prompt ! i)) = SendPrompt (clients ! i) ctx prompt
        \<and> ExecuteParallelConversation completion ctx clients conv ! i
            = conversation_task ctx conv (clients ! i))
    \<and> (\<forall>completion' clients' i.
          set completion' = {0..<length clients'} \<and> i < length clients \<and> i < length clients'
            \<and> clients' ! i = clients ! i \<longrightarrow>
          ExecuteParallel completion' ctx clients' prompt ! i
            = ExecuteParallel completion ctx clients prompt ! i
          \<and> ExecuteParallelConversation completion' ctx clients' conv ! i
            = ExecuteParallelConversation completion ctx clients conv ! i)
    \<and> (\<forall>i < length clients.
          ClientName (ExecuteParallelConversation completion ctx clients conv ! i) = Name (clients ! i)
        \<and> (SupportsConversations (clients ! i) \<longrightarrow>
             (Result (ExecuteParallelConversation completion ctx clients conv ! i),
              Error (ExecuteParallelConversation completion ctx clients conv ! i))
               = SendConversation (clients ! i) ctx conv)
        \<and> (\<not> SupportsConversations (clients ! i) \<and> Messages conv \<noteq> []
              \<and> Role (last (Messages conv)) = ''user'' \<longrightarrow>
             (Result (ExecuteParallelConversation completion ctx clients conv ! i),
              Error (ExecuteParallelConversation completion ctx clients conv ! i))
               = SendPrompt (clients ! i) ctx (Message.Content (last (Messages conv))))
        \<and> (\<not> SupportsConversations (clients ! i) \<and> Messages conv \<noteq> []
              \<and> Role (last (Messages conv)) \<noteq> ''user'' \<longrightarrow>
             (Result (ExecuteParallelConversation completion ctx clients conv ! i),
              Error (ExecuteParallelConversation completion ctx clients conv ! i))
               = ([], Some (NewConfigError ''no user message found in conversation'')))
        \<and> (\<not> SupportsConversations (clients ! i) \<and> Messages conv = [] \<longrightarrow>
             (Result (ExecuteParallelConversation completion ctx clients conv ! i),
              Error (ExecuteParallelConversation completion ctx clients conv ! i))
               = ([], Some (NewConfigError ''empty conversation''))))"
proof -
  have p: "ExecuteParallel completion ctx clients prompt = map (prompt_task ctx prompt) clients"
    using assms by (simp add: ExecuteParallel_def fan_out_map)
  have q: "ExecuteParallelConversation completion ctx clients conv
      = map (conversation_task ctx conv) clients"
    using assms by (simp add: ExecuteParallelConversation_def fan_out_map)
  have p': "ExecuteParallel completion' ctx clients' prompt = map (prompt_task ctx prompt) clients'"
    if "set completion' = {0..<length clients'}" for completion' clients'
    using that by (simp add: ExecuteParallel_def fan_out_map)
  have q': "ExecuteParallelConversation completion' ctx clients' conv
      = map (conversation_task ctx conv) clients'"
    if "set completion' = {0..<length clients'}" for completion' clients'
    using that by (simp add: ExecuteParallelConversation_def fan_out_map)
  have "\<forall>i < length clients.
          ClientName (ExecuteParallel completion ctx clients prompt ! i) = Name (clients ! i)
        \<and> (Result (ExecuteParallel completion ctx clients prompt ! i),
            Error (ExecuteParallel completion ctx clients prompt ! i)) = SendPrompt (clients ! i) ctx prompt
        \<and> ExecuteParallelConversation completion ctx clients conv ! i
            = conversation_task ctx conv (clients ! i)"
    by (simp add: p q prompt_task_def split: prod.splits)
  moreover have "\<forall>completion' clients' i.
          set completion' = {0..<length clients'} \<and> i < length clients \<and> i < length clients'
            \<and> clients' ! i = clients ! i \<longrightarrow>
          ExecuteParallel completion' ctx clients' prompt ! i
            = ExecuteParallel completion ctx clients prompt ! i
          \<and> ExecuteParallelConversation completion' ctx clients' conv ! i
            = ExecuteParallelConversation completion ctx clients conv ! i"
    by (simp add: p q p' q')
  moreover have "\<forall>i < length clients.
          ClientName (ExecuteParallelConversation completion ctx clients conv ! i) = Name (clients ! i)
        \<and> (SupportsConversations (clients ! i) \<longrightarrow>
             (Result (ExecuteParallelConversation completion ctx clients conv ! i),
              Error (ExecuteParallelConversation completion ctx clients conv ! i))
               = SendConversation (clients ! i) ctx conv)
        \<and> (\<not> SupportsConversations (clients ! i) \<and> Messages conv \<noteq> []
              \<and> Role (last (Messages conv)) = ''user'' \<longrightarrow>
             (Result (ExecuteParallelConversation completion ctx clients conv ! i),
              Error (ExecuteParallelConversation completion ctx clients conv ! i))
               = SendPrompt (clients ! i) ctx (Message.Content (last (Messages conv))))
        \<and> (\<not> SupportsConversations (clients ! i) \<and> Messages conv \<noteq> []
              \<and> Role (last (Messages conv)) \<noteq> ''user'' \<longrightarrow>
             (Result (ExecuteParallelConversation completion ctx clients conv ! i),
              Error (ExecuteParallelConversation completion ctx clients conv ! i))
               = ([], Some (NewConfigError ''no user message found in conversation'')))
        \<and> (\<not> SupportsConversations (clients ! i) \<and> Messages conv = [] \<longrightarrow>
             (Result (ExecuteParallelConversation completion ctx clients conv ! i),
              Error (ExecuteParallelConversation completion ctx clients conv ! i))
               = ([], Some (NewConfigError ''empty conversation'')))"
  proof (intro allI impI)
    fix i
    assume "i < length clients"
    then have slot: "ExecuteParallelConversation completion ctx clients conv ! i
        = conversation_task ctx conv (clients ! i)"
      by (simp add: q)
    show "ClientName (ExecuteParallelConversation completion ctx clients conv ! i) = Name (clients ! i)
        \<and> (SupportsConversations (clients ! i) \<longrightarrow>
             (Result (ExecuteParallelConversation completion ctx clients conv ! i),
              Error (ExecuteParallelConversation completion ctx clients conv ! i))
               = SendConversation (clients ! i) ctx conv)
        \<and> (\<not> SupportsConversations (clients ! i) \<and> Messages conv \<noteq> []
              \<and> Role (last (Messages conv)) = ''user'' \<longrightarrow>
             (Result (ExecuteParallelConversation completion ctx clients conv ! i),
              Error (ExecuteParallelConversation completion ctx clients conv ! i))
               = SendPrompt (clients ! i) ctx (Message.Content (last (Messages conv))))
        \<and> (\<not> SupportsConversations (clients ! i) \<and> Messages conv \<noteq> []
              \<and> Role (last (Messages conv)) \<noteq> ''user'' \<longrightarrow>
             (Result (ExecuteParallelConversation completion ctx clients conv ! i),
              Error (ExecuteParallelConversation completion ctx clients conv ! i))
               = ([], Some (NewConfigError ''no user message found in conversation'')))
        \<and> (\<not> SupportsConversations (clients ! i) \<and> Messages conv = [] \<longrightarrow>
             (Result (ExecuteParallelConversation completion ctx clients conv ! i),
              Error (ExecuteParallelConversation completion ctx clients conv ! i))
               = ([], Some (NewConfigError ''empty conversation'')))"
      unfolding slot
      using conversation_task_name [of ctx conv "clients ! i"]
        conversation_task_supported [of "clients ! i" ctx conv]
        conversation_task_last_user [of "clients ! i" conv ctx]
        conversation_task_last_other [of "clients ! i" conv ctx]
        conversation_task_empty [of "clients ! i" conv ctx]
      by blast
  qed
  ultimately show ?thesis
    using p q by simp
qed

theorem ExecuteParallel_slots_witness:
  "set [1, 0] = {0..<length [echo_client, failing_client]}
   \<and> ExecuteParallel [1, 0] () [echo_client, failing_client] ''hi'' =
       [\<lparr>ClientName = ''Echo'', Result = ''echo: hi'', Error = None\<rparr>,
        \<lparr>ClientName = ''Failing'', Result = [], Error = Some network_error\<rparr>]
   \<and> ExecuteParallel [0, 1] () [echo_client, echo_client] ''hi'' ! 0
       = ExecuteParallel [1, 0] () [echo_client, failing_client] ''hi'' ! 0
   \<and> set [2, 0, 1] = {0..<length [answering_client, failing_client, echo_client]}
   \<and> ExecuteParallelConversation [2, 0, 1] () [answering_client, failing_client, echo_client]
        (AddUserMessage ''hi'' NewConversation) =
       [\<lparr>ClientName = ''Answering'', Result = ''answer to a conversation'', Error = None\<rparr>,
        \<lparr>ClientName = ''Failing'', Result = [], Error = Some network_error\<rparr>,
        \<lparr>ClientName = ''Echo'', Result = ''echo: hi'', Error = None\<rparr>]
   \<and> ClientName (ExecuteParallelConversation [2, 0, 1] () [answering_client, failing_client, echo_client]
        (AddUserMessage ''hi'' NewConversation) ! 0) = ''Answering''
   \<and> (Result (ExecuteParallelConversation [2, 0, 1] () [answering_client, failing_client, echo_client]
        (AddUserMessage ''hi'' NewConversation) ! 0),
      Error (ExecuteParallelConversation [2, 0, 1] () [answering_client, failing_client, echo_client]
        (AddUserMessage ''hi'' NewConversation) ! 0)) = (''answer to a conversation'', None)"
proof -
  have h: "set [1, 0] = {0..<length [echo_client, failing_client]}"
    by auto
  note t = ExecuteParallel_slots [OF h, of "()" "''hi''" NewConversation]
  from t have "ExecuteParallel [1, 0] () [echo_client, failing_client] ''hi''
      = map (prompt_task () ''hi'') [echo_client, failing_client]"
    by (rule conjunct1)
  then have run: "ExecuteParallel [1, 0] () [echo_client, failing_client] ''hi'' =
       [\<lparr>ClientName = ''Echo'', Result = ''echo: hi'', Error = None\<rparr>,
        \<lparr>ClientName = ''Failing'', Result = [], Error = Some network_error\<rparr>]"
    by (simp add: prompt_task_def echo_client_def failing_client_def)
  from t have "\<forall>completion' clients' i.
          set completion' = {0..<length clients'} \<and> i < length [echo_client, failing_client]
            \<and> i < length clients' \<and> clients' ! i = [echo_client, failing_client] ! i \<longrightarrow>
          ExecuteParallel completion' () clients' ''hi'' ! i
            = ExecuteParallel [1, 0] () [echo_client, failing_client] ''hi'' ! i
          \<and> ExecuteParallelConversation completion' () clients' NewConversation ! i
            = ExecuteParallelConversation [1, 0] () [echo_client, failing_client] NewConversation ! i"
    by blast
  then have "set [0, 1] = {0..<length [echo_client, echo_client]} \<and> 0 < length [echo_client, failing_client]
            \<and> 0 < length [echo_client, echo_client] \<and> [echo_client, echo_client] ! 0 = [echo_client, failing_client] ! 0 \<longrightarrow>
          ExecuteParallel [0, 1] () [echo_client, echo_client] ''hi'' ! 0
            = ExecuteParallel [1, 0] () [echo_client, failing_client] ''hi'' ! 0"
    by blast
  moreover have "set [0, 1] = {0..<length [echo_client, echo_client]}"
    by auto
  ultimately have iso: "ExecuteParallel [0, 1] () [echo_client, echo_client] ''hi'' ! 0
            = ExecuteParallel [1, 0] () [echo_client, failing_client] ''hi'' ! 0"
    by simp
  have h3: "set [2, 0, 1] = {0..<length [answering_client, failing_client, echo_client]}"
    by auto
  note u = ExecuteParallel_slots [OF h3, of "()" "''hi''" "AddUserMessage ''hi'' NewConversation"]
  from u have "ExecuteParallelConversation [2, 0, 1] () [answering_client, failing_client, echo_client]
        (AddUserMessage ''hi'' NewConversation)
      = map (conversation_task () (AddUserMessage ''hi'' NewConversation))
          [answering_client, failing_client, echo_client]"
    by blast
  then have conv_run: "ExecuteParallelConversation [2, 0, 1] () [answering_client, failing_client, echo_client]
        (AddUserMessage ''hi'' NewConversation) =
       [\<lparr>ClientName = ''Answering'', Result = ''answer to a conversation'', Error = None\<rparr>,
        \<lparr>ClientName = ''Failing'', Result = [], Error = Some network_error\<rparr>,
        \<lparr>ClientName = ''Echo'', Result = ''echo: hi'', Error = None\<rparr>]"
    by (simp add: conversation_task_def answering_client_def failing_client_def echo_client_def
        AddUserMessage_def AddMessage_def NewConversation_def)
  have s0: "(0::nat) < length [answering_client, failing_client, echo_client]
      \<and> SupportsConversations ([answering_client, failing_client, echo_client] ! 0)"
    by (simp add: answering_client_def)
  from u have "\<forall>i < length [answering_client, failing_client, echo_client].
          ClientName (ExecuteParallelConversation [2, 0, 1] () [answering_client, failing_client, echo_client]
            (AddUserMessage ''hi'' NewConversation) ! i)
            = Name ([answering_client, failing_client, echo_client] ! i)
        \<and> (SupportsConversations ([answering_client, failing_client, echo_client] ! i) \<longrightarrow>
             (Result (ExecuteParallelConversation [2, 0, 1] () [answering_client, failing_client, echo_client]
                (AddUserMessage ''hi'' NewConversation) ! i),
              Error (ExecuteParallelConversation [2, 0, 1] () [answering_client, failing_client, echo_client]
                (AddUserMessage ''hi'' NewConversation) ! i))
               = SendConversation ([answering_client, failing_client, echo_client] ! i) ()
                   (AddUserMessage ''hi'' NewConversation))"
    by blast
  with s0 have "ClientName (ExecuteParallelConversation [2, 0, 1] () [answering_client, failing_client, echo_client]
            (AddUserMessage ''hi'' NewConversation) ! 0)
            = Name ([answering_client, failing_client, echo_client] ! 0)
        \<and> (Result (ExecuteParallelConversation [2, 0, 1] () [answering_client, failing_client, echo_client]
                (AddUserMessage ''hi'' NewConversation) ! 0),
              Error (ExecuteParallelConversation [2, 0, 1] () [answering_client, failing_client, echo_client]
                (AddUserMessage ''hi'' NewConversation) ! 0))
               = SendConversation ([answering_client, failing_client, echo_client] ! 0) ()
                   (AddUserMessage ''hi'' NewConversation)"
    by blast
  then have slot0: "ClientName (ExecuteParallelConversation [2, 0, 1] () [answering_client, failing_client, echo_client]
        (AddUserMessage ''hi'' NewConversation) ! 0) = ''Answering''
   \<and> (Result (ExecuteParallelConversation [2, 0, 1] () [answering_client, failing_client, echo_client]
        (AddUserMessage ''hi'' NewConversation) ! 0),
      Error (ExecuteParallelConversation [2, 0, 1] () [answering_client, failing_client, echo_client]
        (AddUserMessage ''hi'' NewConversation) ! 0)) = (''answer to a conversation'', None)"
    by (simp add: answering_client_def)
  from h run iso h3 conv_run slot0 show ?thesis by blast
qed

text \<open>
  C5. In ExecuteParallelConversation a client that does not support conversations is sent,
  through SendPrompt, the content of the last message of the conversation when that
  message has the role user, and its slot holds what SendPrompt returned. When the
  conversation is empty or its last message has another role, the slot holds the
  client's name, an empty result and an error of kind config. The result list has one
  slot per client in either case.
\<close>

theorem conversation_fallback:
  assumes "\<not> SupportsConversations c"
  shows "(Messages conv \<noteq> [] \<and> Role (last (Messages conv)) = ''user'' \<longrightarrow>
            conversation_task ctx conv c =
              \<lparr>ClientName = Name c,
               Result = fst (SendPrompt c ctx (Message.Content (last (Messages conv)))),
               Error = snd (SendPrompt c ctx (Message.Content (last (Messages conv))))\<rparr>)
    \<and> (Messages conv = [] \<or> Role (last (Messages conv)) \<noteq> ''user'' \<longrightarrow>
          ClientName (conversation_task ctx conv c) = Name c
        \<and> Result (conversation_task ctx conv c) = []
        \<and> (\<exists>code message cause.
              Error (conversation_task ctx conv c) = Some (ClientError ErrorTypeConfig code message cause)))
    \<and> length (ExecuteParallelConversation completion ctx clients conv) = length clients
    \<and> (set completion = {0..<length clients} \<and> i < length clients \<and> clients ! i = c \<longrightarrow>
          ExecuteParallelConversation completion ctx clients conv ! i = conversation_task ctx conv c)"
  using assms
  by (auto simp: conversation_task_def NewConfigError_def ExecuteParallelConversation_def
      fan_out_length fan_out_map nth_last_index Let_def split: prod.splits)

theorem conversation_fallback_witness:
  "\<not> SupportsConversations echo_client
   \<and> conversation_task () (AddUserMessage ''hi'' (AddSystemMessage ''be brief'' NewConversation)) echo_client
       = \<lparr>ClientName = ''Echo'', Result = ''echo: hi'', Error = None\<rparr>
   \<and> conversation_task () NewConversation echo_client
       = \<lparr>ClientName = ''Echo'', Result = [], Error = Some (NewConfigError ''empty conversation'')\<rparr>
   \<and> (\<exists>code message cause.
         Error (conversation_task () (AddAssistantMessage ''hello'' (AddUserMessage ''hi'' NewConversation)) echo_client)
           = Some (ClientError ErrorTypeConfig code message cause))
   \<and> length (ExecuteParallelConversation [1, 0] () [failing_client, echo_client] NewConversation) = 2
   \<and> ExecuteParallelConversation [1, 0] () [failing_client, echo_client] NewConversation ! 1
       = \<lparr>ClientName = ''Echo'', Result = [], Error = Some (NewConfigError ''empty conversation'')\<rparr>"
proof -
  have h: "\<not> SupportsConversations echo_client"
    by (simp add: echo_client_def)
  have c1: "Messages (AddUserMessage ''hi'' (AddSystemMessage ''be brief'' NewConversation)) \<noteq> []
      \<and> Role (last (Messages (AddUserMessage ''hi'' (AddSystemMessage ''be brief'' NewConversation)))) = ''user''"
    by (simp add: AddUserMessage_def AddSystemMessage_def AddMessage_def NewConversation_def)
  have c2: "Messages (AddAssistantMessage ''hello'' (AddUserMessage ''hi'' NewConversation)) = []
      \<or> Role (last (Messages (AddAssistantMessage ''hello'' (AddUserMessage ''hi'' NewConversation)))) \<noteq> ''user''"
    by (simp add: AddUserMessage_def AddAssistantMessage_def AddMessage_def NewConversation_def)
  have c3: "set [1, 0] = {0..<length [failing_client, echo_client]} \<and> 1 < length [failing_client, echo_client]
      \<and> [failing_client, echo_client] ! 1 = echo_client"
    by auto
  from conversation_fallback [OF h, of "AddUserMessage ''hi'' (AddSystemMessage ''be brief'' NewConversation)" "()" "[]" "[]" 0] c1
  have r1: "conversation_task () (AddUserMessage ''hi'' (AddSystemMessage ''be brief'' NewConversation)) echo_client
       = \<lparr>ClientName = ''Echo'', Result = ''echo: hi'', Error = None\<rparr>"
    by (simp add: echo_client_def AddUserMessage_def AddSystemMessage_def AddMessage_def NewConversation_def)
  from conversation_fallback [OF h, of "AddAssistantMessage ''hello'' (AddUserMessage ''hi'' NewConversation)" "()" "[]" "[]" 0] c2
  have r2: "\<exists>code message cause.
         Error (conversation_task () (AddAssistantMessage ''hello'' (AddUserMessage ''hi'' NewConversation)) echo_client)
           = Some (ClientError ErrorTypeConfig code message cause)"
    by blast
  have r3: "conversation_task () NewConversation echo_client
       = \<lparr>ClientName = ''Echo'', Result = [], Error = Some (NewConfigError ''empty conversation'')\<rparr>"
    by (simp add: conversation_task_def echo_client_def NewConversation_def)
  note fan = conversation_fallback [OF h, of NewConversation "()" "[1, 0]" "[failing_client, echo_client]" 1]
  from fan have r4: "length (ExecuteParallelConversation [1, 0] () [failing_client, echo_client] NewConversation) = 2"
    by simp
  from fan c3 have "ExecuteParallelConversation [1, 0] () [failing_client, echo_client] NewConversation ! 1
      = conversation_task () NewConversation echo_client"
    by blast
  with r3 have r5: "ExecuteParallelConversation [1, 0] () [failing_client, echo_client] NewConversation ! 1
       = \<lparr>ClientName = ''Echo'', Result = [], Error = Some (NewConfigError ''empty conversation'')\<rparr>"
    by simp
  from h r1 r2 r3 r4 r5 show ?thesis by blast
qed

section \<open>Properties of the stream helper and of the configuration check\<close>

lemma MergeStreamChunks_loop_eq:
  "MergeStreamChunks_loop acc chunks =
     (acc @ concat (map StreamChunk.Content
        (takeWhile (\<lambda>c. \<not> Finished c) chunks @ take 1 (dropWhile (\<lambda>c. \<not> Finished c) chunks))),
      drop 1 (dropWhile (\<lambda>c. \<not> Finished c) chunks))"
  by (induction chunks arbitrary: acc) (simp_all add: Let_def)

text \<open>
  C9. MergeStreamChunks returns the concatenation, in order, of the contents of the chunks
  up to and including the first finished one (of all chunks when none is finished), it
  leaves the chunks after that one unread, and its error is nil. Merging the chunks
  "Hello ", "World!" and the finished empty chunk gives "Hello World!".
\<close>

theorem MergeStreamChunks_concat:
  "MergeStreamChunks chunks =
     ((concat (map StreamChunk.Content
         (takeWhile (\<lambda>c. \<not> Finished c) chunks @ take 1 (dropWhile (\<lambda>c. \<not> Finished c) chunks))),
       None),
      drop 1 (dropWhile (\<lambda>c. \<not> Finished c) chunks))
   \<and> MergeStreamChunks
        [\<lparr>Content = ''Hello '', Finished = False, Metadata = None\<rparr>,
         \<lparr>Content = ''World!'', Finished = False, Metadata = None\<rparr>,
         \<lparr>Content = [], Finished = True, Metadata = None\<rparr>]
       = ((''Hello World!'', None), [])"
  by (simp add: MergeStreamChunks_def MergeStreamChunks_loop_eq)

lemma set_and_iff: "(x \<noteq> None \<and> P (the x)) = (\<exists>v. x = Some v \<and> P v)"
  by (cases x) simp_all

lemma if_Some_ne_None: "((if c then Some e else r) \<noteq> None) = (c \<or> r \<noteq> None)"
  by simp

lemma ValidateConfig_error_iff:
  "(ValidateConfig fmt config \<noteq> None) =
     (Timeout config \<le>s 0
      \<or> Retries config < 0
      \<or> (Temperature config \<noteq> None \<and>
           (f_less (the (Temperature config)) (Num 0) \<or> f_less (Num 2) (the (Temperature config))))
      \<or> (MaxTokens config \<noteq> None \<and> the (MaxTokens config) \<le> 0)
      \<or> (TopP config \<noteq> None \<and>
           (f_less (the (TopP config)) (Num 0) \<or> f_less (Num 1) (the (TopP config))))
      \<or> (FrequencyPenalty config \<noteq> None \<and>
           (f_less (the (FrequencyPenalty config)) (Num (- 2)) \<or>
            f_less (Num 2) (the (FrequencyPenalty config))))
      \<or> (PresencePenalty config \<noteq> None \<and>
           (f_less (the (PresencePenalty config)) (Num (- 2)) \<or>
            f_less (Num 2) (the (PresencePenalty config)))))"
  unfolding ValidateConfig_def by (simp only: if_Some_ne_None simp_thms)

lemma ValidateConfig_accepts_example:
  "ValidateConfig fmt (SetTopP (Num 0.8) (SetTemperature (Num 1.0) NewClientConfig)) = None"
  by (simp add: ValidateConfig_def SetTopP_def SetTemperature_def NewClientConfig_def
      Second_def word_sle_eq)

text \<open>
  C10. ValidateConfig returns an error exactly when the timeout is at most 0, or the
  retries are negative, or a temperature is set and is below 0 or above 2, or max tokens
  is set and is at most 0, or top-p is set and is below 0 or above 1, or a frequency or
  presence penalty is set and is below -2 or above 2. The default configuration with
  temperature 1.0 and top-p 0.8 is accepted.
\<close>

theorem ValidateConfig_rejects:
  "(ValidateConfig fmt config \<noteq> None) =
     (sint (Timeout config) \<le> 0
      \<or> Retries config < 0
      \<or> (\<exists>t. Temperature config = Some t \<and> (f_less t (Num 0) \<or> f_less (Num 2) t))
      \<or> (\<exists>n. MaxTokens config = Some n \<and> n \<le> 0)
      \<or> (\<exists>p. TopP config = Some p \<and> (f_less p (Num 0) \<or> f_less (Num 1) p))
      \<or> (\<exists>p. FrequencyPenalty config = Some p \<and> (f_less p (Num (- 2)) \<or> f_less (Num 2) p))
      \<or> (\<exists>p. PresencePenalty config = Some p \<and> (f_less p (Num (- 2)) \<or> f_less (Num 2) p)))
   \<and> ValidateConfig fmt (SetTopP (Num 0.8) (SetTemperature (Num 1.0) NewClientConfig)) = None"
proof (rule conjI)
  show "ValidateConfig fmt (SetTopP (Num 0.8) (SetTemperature (Num 1.0) NewClientConfig)) = None"
    by (rule ValidateConfig_accepts_example)
  show "(ValidateConfig fmt config \<noteq> None) =
     (sint (Timeout config) \<le> 0
      \<or> Retries config < 0
      \<or> (\<exists>t. Temperature config = Some t \<and> (f_less t (Num 0) \<or> f_less (Num 2) t))
      \<or> (\<exists>n. MaxTokens config = Some n \<and> n \<le> 0)
      \<or> (\<exists>p. TopP config = Some p \<and> (f_less p (Num 0) \<or> f_less (Num 1) p))
      \<or> (\<exists>p. FrequencyPenalty config = Some p \<and> (f_less p (Num (- 2)) \<or> f_less (Num 2) p))
      \<or> (\<exists>p. PresencePenalty config = Some p \<and> (f_less p (Num (- 2)) \<or> f_less (Num 2) p)))"
    unfolding ValidateConfig_error_iff
    by (simp only: word_sle_eq
        set_and_iff [of "Temperature config" "\<lambda>t. f_less t (Num 0) \<or> f_less (Num 2) t"]
        set_and_iff [of "MaxTokens config" "\<lambda>n. n \<le> 0"]
        set_and_iff [of "TopP config" "\<lambda>p. f_less p (Num 0) \<or> f_less (Num 1) p"]
        set_and_iff [of "FrequencyPenalty config" "\<lambda>p. f_less p (Num (- 2)) \<or> f_less (Num 2) p"]
        set_and_iff [of "PresencePenalty config" "\<lambda>p. f_less p (Num (- 2)) \<or> f_less (Num 2) p"])
      simp
qed

end
